theory Spec2Isabelle
  imports Main
begin

section \<open>JavaScript values and calls\<close>

text \<open>
  The formatter of \<^verbatim>\<open>formatter.js\<close> is a JavaScript function: it is called with a list of
  arguments, each of them any JavaScript value, and the call either returns a value,
  throws a value, or does not come back. Numbers are represented as far as the
  development needs them: the integral ones and the three special values. Objects are
  kept as their list of own enumerable properties, in insertion order. (A cyclic object
  has no representation in this type.)
\<close>

datatype js_number = Integer int | NaN | PosInfinity | NegInfinity

datatype js_value =
    JUndefined
  | JNull
  | JBool bool
  | JNum js_number
  | JStr string
  | JArr "js_value list"
  | JObj "(string \<times> js_value) list"
  | JFun string

datatype outcome = Returned js_value | Thrown js_value

text \<open>
  A call runs in a world \<open>'w\<close> (whatever a function can read or change besides its
  arguments: the clock, module state, the output stream). \<open>None\<close> is a call that never
  returns.
\<close>

type_synonym 'w js_function = "'w \<Rightarrow> js_value list \<Rightarrow> (outcome \<times> 'w) option"

text \<open>A parameter that the caller did not pass is \<^verbatim>\<open>undefined\<close>.\<close>

definition arg :: "nat \<Rightarrow> js_value list \<Rightarrow> js_value" where
  "arg i args = (if i < length args then args ! i else JUndefined)"

section \<open>The formatter\<close>

text \<open>
  \<^verbatim>\<open>
  const json2tomlConverter = require('json2toml');
  function formatTOML(results){
    const tomlResults = json2tomlConverter(results);
    return tomlResults;
  }
  module.exports = formatTOML;
  \<close>
  The conversion routine is the export of the package \<^verbatim>\<open>json2toml\<close>, which is not part
  of this repository: it is the first parameter of the model. \<open>formatTOML\<close> has one
  formal parameter, calls the routine with that one value, has no \<^verbatim>\<open>try\<close> and returns
  what the routine returned.
\<close>

definition formatTOML :: "'w js_function \<Rightarrow> 'w js_function" where
  "formatTOML json2tomlConverter w args =
     (let results = arg 0 args in
      case json2tomlConverter w [results] of
        None \<Rightarrow> None
      | Some (Thrown e, w') \<Rightarrow> Some (Thrown e, w')
      | Some (Returned tomlResults, w') \<Rightarrow> Some (Returned tomlResults, w'))"

section \<open>The formatter is the conversion routine on its first argument\<close>

lemma formatTOML_call:
  "formatTOML json2tomlConverter w args = json2tomlConverter w [arg 0 args]"
  unfolding formatTOML_def Let_def
  by (simp split: option.split prod.split outcome.split)

lemma arg_0_Cons: "arg 0 (results # context) = results"
  by (simp add: arg_def)

text \<open>
  Claim C10 (pass-through equivalence). Called with the results and any further
  arguments, \<open>formatTOML\<close> gives exactly what the conversion routine gives on the
  results alone: the same returned value with nothing done to it, the same thrown
  value, the same world afterwards, and no return where the routine does not return.
  The arguments after the first have no effect on the outcome.
\<close>

theorem formatTOML_pass_through:
  "formatTOML json2tomlConverter w (results # context) = json2tomlConverter w [results]
   \<and> formatTOML json2tomlConverter w (results # context)
       = formatTOML json2tomlConverter w [results]"
  by (simp add: formatTOML_call arg_0_Cons)

end
